theory Spec2Isabelle
  imports Complex_Main "HOL-Library.Sublist" "HOL-Library.AList"
begin

section \<open>Numbers and their formatting\<close>

text \<open>
  Quantities, prices and clock readings are Python numbers (\<open>int\<close> or \<open>float\<close>). They
  are modelled as exact rationals: the properties below are about which values are added
  and compared, and about values that a binary float holds exactly. NaN, infinities and
  rounding errors of binary arithmetic are outside the model.
\<close>

definition digit_char :: "nat \<Rightarrow> char" where
  "digit_char d = ''0123456789'' ! d"

fun str_nat :: "nat \<Rightarrow> string" where
  "str_nat n = (if n < 10 then [digit_char n] else str_nat (n div 10) @ [digit_char (n mod 10)])"

declare str_nat.simps [simp del]

text \<open>Rounding to the nearest integer, ties to the even neighbour.\<close>

definition round_half_even :: "rat \<Rightarrow> int" where
  "round_half_even y =
     (let f = \<lfloor>y\<rfloor>; d = y - of_int f
      in if d < 1 / 2 then f
         else if 1 / 2 < d then f + 1
         else if even f then f else f + 1)"

text \<open>
  \<^verbatim>\<open>f"{x:.2f}"\<close>: sign, integer part, a point and exactly two decimals; the value is
  rounded here and nowhere else.
\<close>

definition format_2f :: "rat \<Rightarrow> string" where
  "format_2f x =
     (let n = nat (round_half_even (\<bar>x\<bar> * 100))
      in (if x < 0 then ''-'' else '''') @ str_nat (n div 100) @ ''.''
           @ [digit_char (n mod 100 div 10), digit_char (n mod 10)])"

section \<open>Accounts and balances\<close>

text \<open>
  An entry of \<^verbatim>\<open>accounts.yaml\<close>, typed as the configuration contract has it: \<^verbatim>\<open>id\<close>
  and \<^verbatim>\<open>name\<close> are present, \<^verbatim>\<open>assets\<close> and its keys \<^verbatim>\<open>crypto\<close> and \<^verbatim>\<open>stock\<close>
  are optional (the code tests for each with \<^verbatim>\<open>in\<close>). The crypto mapping keeps its
  order of iteration, so it is a list of pairs.
\<close>

record stock_holding =
  symbol :: string
  shares :: rat

record asset_holdings =
  crypto :: "(string \<times> rat) list option"
  stock :: "stock_holding list option"

record account =
  account_id :: string
  account_name :: string
  assets :: "asset_holdings option"

text \<open>
  The three values interpolated into a line of \<^verbatim>\<open>assets_summary\<close>: the asset key, the
  quantity and the computed value.
\<close>

datatype summary_line =
    Crypto_line string rat rat
  | Stock_line string rat rat

datatype log_line =
    Warning_crypto_price string
  | Warning_stock_price string
  | Info_account string
  | Info_asset summary_line
  | Info_total rat

record tally =
  total_usd :: rat
  assets_summary :: "summary_line list"
  warnings :: "log_line list"

text \<open>
  The loop over \<^verbatim>\<open>crypto_assets.items()\<close>. A price dictionary is only read here, so it
  is a lookup function; the value \<open>Some None\<close> is a key stored with Python's \<^verbatim>\<open>None\<close>.
\<close>

fun crypto_items :: "(string \<rightharpoonup> rat option) \<Rightarrow> (string \<times> rat) list \<Rightarrow> tally \<Rightarrow> tally" where
  "crypto_items crypto_prices [] t = t"
| "crypto_items crypto_prices ((crypto_id, amount) # rest) t =
     (case crypto_prices crypto_id of
        Some (Some price) \<Rightarrow>
          (let crypto_value = amount * price
           in if crypto_value > 0
              then crypto_items crypto_prices rest
                     (t\<lparr>assets_summary := assets_summary t @ [Crypto_line crypto_id amount crypto_value],
                        total_usd := total_usd t + crypto_value\<rparr>)
              else crypto_items crypto_prices rest t)
      | _ \<Rightarrow> crypto_items crypto_prices rest
               (t\<lparr>warnings := warnings t @ [Warning_crypto_price crypto_id]\<rparr>))"

text \<open>The loop over \<^verbatim>\<open>stock_assets\<close>.\<close>

fun stock_items :: "(string \<rightharpoonup> rat) \<Rightarrow> stock_holding list \<Rightarrow> tally \<Rightarrow> tally" where
  "stock_items stock_prices [] t = t"
| "stock_items stock_prices (s # rest) t =
     (case stock_prices (symbol s) of
        Some price \<Rightarrow>
          (let stock_value = shares s * price
           in stock_items stock_prices rest
                (t\<lparr>assets_summary := assets_summary t @ [Stock_line (symbol s) (shares s) stock_value],
                   total_usd := total_usd t + stock_value\<rparr>))
      | None \<Rightarrow> stock_items stock_prices rest
                  (t\<lparr>warnings := warnings t @ [Warning_stock_price (symbol s)]\<rparr>))"

definition crypto_of :: "account \<Rightarrow> (string \<times> rat) list" where
  "crypto_of a = (case assets a of None \<Rightarrow> [] | Some h \<Rightarrow> (case crypto h of None \<Rightarrow> [] | Some c \<Rightarrow> c))"

definition stock_of :: "account \<Rightarrow> stock_holding list" where
  "stock_of a = (case assets a of None \<Rightarrow> [] | Some h \<Rightarrow> (case stock h of None \<Rightarrow> [] | Some s \<Rightarrow> s))"

text \<open>The body of the loop over accounts up to the command: crypto first, then stock.\<close>

definition account_tally :: "(string \<rightharpoonup> rat option) \<Rightarrow> (string \<rightharpoonup> rat) \<Rightarrow> account \<Rightarrow> tally" where
  "account_tally crypto_prices stock_prices a =
     stock_items stock_prices (stock_of a)
       (crypto_items crypto_prices (crypto_of a)
          \<lparr>total_usd = 0, assets_summary = [], warnings = []\<rparr>)"

definition apostrophe :: string where
  "apostrophe = [CHR 0x27]"

text \<open>The command text, with the balance written by \<^verbatim>\<open>{total_usd:.2f}\<close>.\<close>

definition update_command :: "string \<Rightarrow> string \<Rightarrow> string \<Rightarrow> string" where
  "update_command aid balance pl_api_key =
     ''window.projectionlabPluginAPI.updateAccount('' @ apostrophe @ aid @ apostrophe
       @ '', { balance: '' @ balance @ '' }, { key: '' @ apostrophe @ pl_api_key @ apostrophe @ '' })''"

text \<open>
  \<^verbatim>\<open>calculate_account_balances\<close>: the loop appends one command and the account's log
  lines per iteration; the function returns \<^verbatim>\<open>update_commands\<close> (the log is kept beside
  it).
\<close>

fun balances_loop ::
  "(string \<rightharpoonup> rat option) \<Rightarrow> (string \<rightharpoonup> rat) \<Rightarrow> string \<Rightarrow> account list
     \<Rightarrow> string list \<times> log_line list \<Rightarrow> string list \<times> log_line list" where
  "balances_loop crypto_prices stock_prices pl_api_key [] acc = acc"
| "balances_loop crypto_prices stock_prices pl_api_key (a # rest) (update_commands, logged) =
     (let t = account_tally crypto_prices stock_prices a;
          command = update_command (account_id a) (format_2f (total_usd t)) pl_api_key
      in balances_loop crypto_prices stock_prices pl_api_key rest
           (update_commands @ [command],
            logged @ warnings t @ [Info_account (account_name a)]
              @ map Info_asset (assets_summary t) @ [Info_total (total_usd t)]))"

definition calculate_account_balances ::
  "account list \<Rightarrow> (string \<rightharpoonup> rat option) \<Rightarrow> (string \<rightharpoonup> rat) \<Rightarrow> string \<Rightarrow> string list" where
  "calculate_account_balances accounts crypto_prices stock_prices pl_api_key =
     fst (balances_loop crypto_prices stock_prices pl_api_key accounts ([], []))"

section \<open>Fetching crypto prices\<close>

datatype py_error = ValueError | IndexError

text \<open>
  What \<^verbatim>\<open>int(response.headers.get('Retry-After', retry_delay))\<close> meets: no header, a
  header that \<^verbatim>\<open>int\<close> parses, or one on which \<^verbatim>\<open>int\<close> raises \<^verbatim>\<open>ValueError\<close>.
\<close>

datatype retry_after = No_header | Header_int int | Header_invalid

text \<open>
  The value under \<^verbatim>\<open>'usd'\<close>: a number, or something the format \<^verbatim>\<open>{price:,.2f}\<close> of
  the log line raises on (JSON \<^verbatim>\<open>null\<close>, a string).
\<close>

datatype usd_value = Usd rat | Usd_not_number

text \<open>
  One answer of the price service, as the code tells them apart. For a body, \<open>data i\<close>
  is \<open>None\<close> when \<open>i\<close> is not a key of the body, \<open>Some None\<close> when its entry has
  no \<^verbatim>\<open>'usd'\<close> key.
\<close>

datatype response =
    Request_exception
  | Rate_limited retry_after
  | Http_error
  | Body_invalid
  | Body "string \<rightharpoonup> usd_value option"

datatype fetch_event = Request nat | Sleep int

text \<open>
  A dictionary that is built, tested for emptiness and stored: a list of pairs with
  distinct keys, in insertion order.
\<close>

type_synonym price_dict = "(string \<times> rat option) list"

definition DEFAULT_CRYPTO_IDS :: "string list" where
  "DEFAULT_CRYPTO_IDS = [''bitcoin'', ''ethereum'']"

text \<open>The loop over \<^verbatim>\<open>crypto_ids\<close> filling \<^verbatim>\<open>prices\<close>; \<open>None\<close> when a log line raises.\<close>

fun extract_prices :: "(string \<rightharpoonup> usd_value option) \<Rightarrow> string list \<Rightarrow> price_dict \<Rightarrow> price_dict option" where
  "extract_prices data [] prices = Some prices"
| "extract_prices data (crypto_id # rest) prices =
     (case data crypto_id of
        Some (Some (Usd price)) \<Rightarrow> extract_prices data rest (AList.update crypto_id (Some price) prices)
      | Some (Some Usd_not_number) \<Rightarrow> None
      | _ \<Rightarrow> extract_prices data rest (AList.update crypto_id None prices))"

definition retry_after_seconds :: "retry_after \<Rightarrow> int \<Rightarrow> int option" where
  "retry_after_seconds h retry_delay =
     (case h of No_header \<Rightarrow> Some retry_delay | Header_int n \<Rightarrow> Some n | Header_invalid \<Rightarrow> None)"

text \<open>
  The \<^verbatim>\<open>try\<close> block of one attempt: it returns the prices, or reaches \<^verbatim>\<open>continue\<close>
  after sleeping, or an exception is caught by one of the \<^verbatim>\<open>except\<close> clauses
  (\<^verbatim>\<open>time.sleep\<close> of a negative number raises \<^verbatim>\<open>ValueError\<close> inside the block).
\<close>

datatype attempt_outcome = Return_prices price_dict | Continue_loop int | Caught

definition try_request :: "string list \<Rightarrow> int \<Rightarrow> response \<Rightarrow> attempt_outcome" where
  "try_request crypto_ids retry_delay r =
     (case r of
        Request_exception \<Rightarrow> Caught
      | Rate_limited h \<Rightarrow>
          (case retry_after_seconds h retry_delay of
             None \<Rightarrow> Caught
           | Some retry_after \<Rightarrow> if retry_after < 0 then Caught else Continue_loop retry_after)
      | Http_error \<Rightarrow> Caught
      | Body_invalid \<Rightarrow> Caught
      | Body data \<Rightarrow>
          (case extract_prices data crypto_ids [] of
             None \<Rightarrow> Caught
           | Some prices \<Rightarrow> Return_prices prices))"

text \<open>
  \<^verbatim>\<open>for attempt in range(max_retries)\<close>, over the list of attempt numbers. \<open>api k\<close> is
  the answer to the request of attempt \<open>k\<close>. The trace records each request and each
  sleep. The backoff sleep is outside the \<^verbatim>\<open>try\<close> block, so a negative duration
  leaves the function with \<^verbatim>\<open>ValueError\<close>.
\<close>

fun attempts_loop ::
  "string list \<Rightarrow> int \<Rightarrow> int \<Rightarrow> (nat \<Rightarrow> response) \<Rightarrow> nat list \<Rightarrow> fetch_event list
     \<Rightarrow> py_error + price_dict \<times> fetch_event list" where
  "attempts_loop crypto_ids max_retries retry_delay api [] trace = Inr ([], trace)"
| "attempts_loop crypto_ids max_retries retry_delay api (attempt # rest) trace =
     (case try_request crypto_ids retry_delay (api attempt) of
        Return_prices prices \<Rightarrow> Inr (prices, trace @ [Request attempt])
      | Continue_loop retry_after \<Rightarrow>
          attempts_loop crypto_ids max_retries retry_delay api rest
            (trace @ [Request attempt, Sleep retry_after])
      | Caught \<Rightarrow>
          if int attempt < max_retries - 1
          then (let backoff_time = retry_delay * 2 ^ attempt
                in if backoff_time < 0 then Inl ValueError
                   else attempts_loop crypto_ids max_retries retry_delay api rest
                          (trace @ [Request attempt, Sleep backoff_time]))
          else attempts_loop crypto_ids max_retries retry_delay api rest
                 (trace @ [Request attempt]))"

definition get_crypto_prices ::
  "string list option \<Rightarrow> int \<Rightarrow> int \<Rightarrow> (nat \<Rightarrow> response)
     \<Rightarrow> py_error + price_dict \<times> fetch_event list" where
  "get_crypto_prices crypto_ids max_retries retry_delay api =
     attempts_loop (case crypto_ids of None \<Rightarrow> DEFAULT_CRYPTO_IDS | Some ids \<Rightarrow> ids)
       max_retries retry_delay api [0..<nat max_retries] []"

section \<open>The price cache\<close>

text \<open>
  The JSON object in the cache file; either key may be missing (the code reads both with
  \<^verbatim>\<open>.get\<close> and a default). \<open>Unreadable\<close> is a file on which opening or parsing raises.
\<close>

record cache_record =
  cache_timestamp :: "rat option"
  cache_prices :: "price_dict option"

datatype cache_file = No_file | Unreadable | Stored cache_record

datatype cache_lookup =
    Hit price_dict
  | No_cache
  | Expired
  | Missing "string list"
  | Read_error

text \<open>
  The first \<^verbatim>\<open>try\<close> block of \<^verbatim>\<open>get_cached_crypto_prices\<close>. On the hit path the prices of
  the requested ids are logged with \<^verbatim>\<open>{price:,.2f}\<close> before the \<^verbatim>\<open>return\<close>; a stored
  \<^verbatim>\<open>None\<close> raises there and the \<^verbatim>\<open>except\<close> clause takes over.
\<close>

definition read_cache :: "cache_file \<Rightarrow> rat \<Rightarrow> string list \<Rightarrow> int \<Rightarrow> cache_lookup" where
  "read_cache file current_time crypto_ids cache_duration =
     (case file of
        No_file \<Rightarrow> No_cache
      | Unreadable \<Rightarrow> Read_error
      | Stored cache_data \<Rightarrow>
          (let timestamp = (case cache_timestamp cache_data of None \<Rightarrow> 0 | Some t \<Rightarrow> t)
           in if current_time - timestamp < of_int cache_duration
              then (let prices = (case cache_prices cache_data of None \<Rightarrow> [] | Some p \<Rightarrow> p);
                        missing_ids = filter (\<lambda>crypto_id. map_of prices crypto_id = None) crypto_ids
                    in if missing_ids = []
                       then (if list_ex (\<lambda>(crypto_id, price). crypto_id \<in> set crypto_ids \<and> price = None) prices
                             then Read_error
                             else Hit prices)
                       else Missing missing_ids)
              else Expired))"

text \<open>
  What the function finds outside itself: the cache file, the clock when the record is
  checked and when a new one is stamped, the price service, and whether writing the file
  fails (then with the file it leaves behind).
\<close>

record world =
  w_file :: cache_file
  w_time_read :: rat
  w_time_write :: rat
  w_api :: "nat \<Rightarrow> response"
  w_write_fault :: "cache_file option"

text \<open>
  \<^verbatim>\<open>get_cached_crypto_prices\<close> with the list of ids given, as \<^verbatim>\<open>main\<close> calls it. The
  result is the returned dictionary and the cache file afterwards.
\<close>

definition get_cached_crypto_prices ::
  "string list \<Rightarrow> int \<Rightarrow> world \<Rightarrow> py_error + price_dict \<times> cache_file" where
  "get_cached_crypto_prices crypto_ids cache_duration w =
     (case read_cache (w_file w) (w_time_read w) crypto_ids cache_duration of
        Hit prices \<Rightarrow> Inr (prices, w_file w)
      | _ \<Rightarrow>
          (case get_crypto_prices (Some crypto_ids) 3 5 (w_api w) of
             Inl e \<Rightarrow> Inl e
           | Inr (prices, trace) \<Rightarrow>
               if prices \<noteq> []
               then (case w_write_fault w of
                       None \<Rightarrow>
                         Inr (prices,
                              Stored \<lparr>cache_timestamp = Some (w_time_write w), cache_prices = Some prices\<rparr>)
                     | Some damaged \<Rightarrow> Inr (prices, damaged))
               else Inr (prices, w_file w)))"

section \<open>Submitting the one-time code\<close>

text \<open>
  What one call of \<^verbatim>\<open>handle_mfa_code\<close> meets after entering its code: an exception of
  the driver, a page without the code fields, or the fields still there; in the last case
  with the result of \<^verbatim>\<open>get_totp_from_secret\<close> (\<open>None\<close> when it fails).
\<close>

datatype submission = Driver_exception | Accepted | Rejected "string option"

text \<open>
  \<open>browser d\<close> is what the call at recursion depth \<open>d\<close> meets. The result is the
  returned flag and the codes entered, in order. The function calls itself with no
  counter, so it is defined as a partial function: \<open>None\<close> is a run that never returns.
  The recursion limit of the interpreter is outside the model.
\<close>

partial_function (option) handle_mfa_code ::
  "(nat \<Rightarrow> submission) \<Rightarrow> nat \<Rightarrow> string \<Rightarrow> string list \<Rightarrow> (bool \<times> string list) option" where
  "handle_mfa_code browser depth mfa_code entered =
     (case browser depth of
        Driver_exception \<Rightarrow> Some (False, entered @ [mfa_code])
      | Accepted \<Rightarrow> Some (True, entered @ [mfa_code])
      | Rejected fresh \<Rightarrow>
          (case fresh of
             None \<Rightarrow> Some (False, entered @ [mfa_code])
           | Some fresh_mfa_code \<Rightarrow>
               if fresh_mfa_code \<noteq> [] \<and> fresh_mfa_code \<noteq> mfa_code
               then handle_mfa_code browser (Suc depth) fresh_mfa_code (entered @ [mfa_code])
               else Some (False, entered @ [mfa_code])))"

declare handle_mfa_code.simps [code]

section \<open>Executing the commands\<close>

text \<open>\<^verbatim>\<open>s.split(sep)\<close> for a non-empty separator.\<close>

fun py_split :: "string \<Rightarrow> string \<Rightarrow> string list" where
  "py_split [] sep = [[]]"
| "py_split (c # cs) sep =
     (if sep \<noteq> [] \<and> prefix sep (c # cs)
      then [] # py_split (drop (length sep - 1) cs) sep
      else (case py_split cs sep of p # ps \<Rightarrow> (c # p) # ps | [] \<Rightarrow> [[c]]))"

text \<open>\<^verbatim>\<open>s.replace(old, new)\<close>: occurrences from the left, not overlapping.\<close>

fun replace_scan :: "string \<Rightarrow> string \<Rightarrow> string \<Rightarrow> string" where
  "replace_scan [] old new = []"
| "replace_scan (c # cs) old new =
     (if old \<noteq> [] \<and> prefix old (c # cs)
      then new @ replace_scan (drop (length old - 1) cs) old new
      else c # replace_scan cs old new)"

definition py_replace :: "string \<Rightarrow> string \<Rightarrow> string \<Rightarrow> string" where
  "py_replace s old new =
     (if old = [] then new @ concat (map (\<lambda>c. c # new) s) else replace_scan s old new)"

text \<open>
  \<^verbatim>\<open>command.replace(command.split("key: '")[1].split("'")[0], "***REDACTED***")\<close>; the
  index \<^verbatim>\<open>[1]\<close> raises \<^verbatim>\<open>IndexError\<close> when the command has no \<^verbatim>\<open>key: '\<close>.
\<close>

definition redact_command :: "string \<Rightarrow> py_error + string" where
  "redact_command command =
     (case py_split command (''key: '' @ apostrophe) of
        _ # after # _ \<Rightarrow>
          (case py_split after apostrophe of
             secret # _ \<Rightarrow> Inr (py_replace command secret ''***REDACTED***'')
           | [] \<Rightarrow> Inl IndexError)
      | _ \<Rightarrow> Inl IndexError)"

datatype exec_log = Executing_command string | Executed | Error_updating

text \<open>
  The loop over \<^verbatim>\<open>update_commands\<close> in \<^verbatim>\<open>update_projectionlab\<close>. \<open>driver c\<close> tells
  whether \<^verbatim>\<open>driver.execute_script(c)\<close> returns; an exception ends the loop in the
  enclosing \<^verbatim>\<open>except\<close> clause, whose log line is not modelled beyond its presence.
\<close>

fun execute_commands :: "(string \<Rightarrow> bool) \<Rightarrow> string list \<Rightarrow> exec_log list \<Rightarrow> bool \<times> exec_log list" where
  "execute_commands driver [] logged = (True, logged)"
| "execute_commands driver (command # rest) logged =
     (case redact_command command of
        Inl e \<Rightarrow> (False, logged @ [Error_updating])
      | Inr redacted_command \<Rightarrow>
          if driver command
          then execute_commands driver rest (logged @ [Executing_command redacted_command, Executed])
          else (False, logged @ [Executing_command redacted_command, Error_updating]))"

section \<open>Observations used in the statements\<close>

text \<open>
  A response from which \<^verbatim>\<open>get_crypto_prices\<close> can return: a body in which no requested
  id carries a \<^verbatim>\<open>'usd'\<close> value that is not a number.
\<close>

definition priced_body :: "string list \<Rightarrow> response \<Rightarrow> bool" where
  "priced_body crypto_ids r =
     (case r of Body data \<Rightarrow> list_all (\<lambda>i. data i \<noteq> Some (Some Usd_not_number)) crypto_ids
      | _ \<Rightarrow> False)"

text \<open>The attempt numbers of the requests in a trace, in order.\<close>

fun requests :: "fetch_event list \<Rightarrow> nat list" where
  "requests [] = []"
| "requests (Request k # es) = k # requests es"
| "requests (Sleep n # es) = requests es"

section \<open>Properties of the balance calculation\<close>

lemma crypto_items_append:
  "crypto_items cp (xs @ ys) t = crypto_items cp ys (crypto_items cp xs t)"
  by (induction xs arbitrary: t) (auto split: option.splits simp: Let_def)

lemma balances_loop_commands:
  "fst (balances_loop cp sp k accounts (cmds, lg)) =
     cmds @ map (\<lambda>a. update_command (account_id a) (format_2f (total_usd (account_tally cp sp a))) k) accounts"
  by (induction accounts arbitrary: cmds lg) (simp_all add: Let_def)

lemma format_2f_zero: "format_2f 0 = ''0.00''"
  by (simp add: format_2f_def round_half_even_def str_nat.simps digit_char_def)

lemma crypto_items_unpriced:
  "\<forall>(crypto_id, amount) \<in> set xs. cp crypto_id = None \<or> cp crypto_id = Some None
     \<Longrightarrow> total_usd (crypto_items cp xs t) = total_usd t"
  by (induction xs arbitrary: t) (auto split: option.splits)

lemma stock_items_unpriced:
  "\<forall>s \<in> set xs. sp (symbol s) = None \<Longrightarrow> total_usd (stock_items sp xs t) = total_usd t"
  by (induction xs arbitrary: t) (auto split: option.splits)

text \<open>
  C1, as the spec states it, fails: a crypto holding whose price is present and whose
  value is not positive adds nothing to the running total. An account holding \<open>-1\<close>
  bitcoin at price 100 has the line item \<open>-100\<close>; its total stays 0 and its command
  carries the balance \<^verbatim>\<open>0.00\<close>, not \<^verbatim>\<open>-100.00\<close>.
\<close>

theorem crypto_nonpositive_counterexample:
  "total_usd (account_tally [''bitcoin'' \<mapsto> Some 100] Map.empty
       \<lparr>account_id = ''a1'', account_name = ''Wallet'',
        assets = Some \<lparr>crypto = Some [(''bitcoin'', - 1)], stock = None\<rparr>\<rparr>) = 0
   \<and> (- 1) * 100 \<le> (0::rat)
   \<and> calculate_account_balances
       [\<lparr>account_id = ''a1'', account_name = ''Wallet'',
         assets = Some \<lparr>crypto = Some [(''bitcoin'', - 1)], stock = None\<rparr>\<rparr>]
       [''bitcoin'' \<mapsto> Some 100] Map.empty ''K''
     = [update_command ''a1'' ''0.00'' ''K'']
   \<and> update_command ''a1'' ''0.00'' ''K'' \<noteq> update_command ''a1'' (format_2f (0 + (- 1) * 100)) ''K''"
  by (simp add: calculate_account_balances_def account_tally_def crypto_of_def stock_of_def
      update_command_def format_2f_def round_half_even_def str_nat.simps digit_char_def)

text \<open>
  C1, amended: for every account and every crypto holding whose price is present and not
  \<^verbatim>\<open>None\<close>, if the line-item value (quantity times price) is zero or negative, the
  holding is left out of the per-asset summary and its value is not added to the running
  total: summary, total and warnings of the account are those of the same account
  without that holding.
\<close>

theorem crypto_nonpositive_skipped:
  assumes "crypto_of a = before @ (crypto_id, amount) # after"
    and "crypto_of a' = before @ after"
    and "stock_of a' = stock_of a"
    and "crypto_prices crypto_id = Some (Some price)"
    and "amount * price \<le> 0"
  shows "account_tally crypto_prices stock_prices a = account_tally crypto_prices stock_prices a'"
  using assms by (simp add: account_tally_def crypto_items_append Let_def)

theorem crypto_nonpositive_skipped_witness:
  "account_tally [''bitcoin'' \<mapsto> Some 100, ''ethereum'' \<mapsto> Some 20] Map.empty
     \<lparr>account_id = ''a1'', account_name = ''Wallet'',
      assets = Some \<lparr>crypto = Some [(''ethereum'', 2), (''bitcoin'', - 1)], stock = None\<rparr>\<rparr>
   = account_tally [''bitcoin'' \<mapsto> Some 100, ''ethereum'' \<mapsto> Some 20] Map.empty
     \<lparr>account_id = ''a1'', account_name = ''Wallet'',
      assets = Some \<lparr>crypto = Some [(''ethereum'', 2)], stock = None\<rparr>\<rparr>
   \<and> (- 1) * 100 \<le> (0::rat)"
  using crypto_nonpositive_skipped [of
      "\<lparr>account_id = ''a1'', account_name = ''Wallet'',
        assets = Some \<lparr>crypto = Some [(''ethereum'', 2), (''bitcoin'', - 1)], stock = None\<rparr>\<rparr>"
      "[(''ethereum'', 2)]" "''bitcoin''" "- 1" "[]"
      "\<lparr>account_id = ''a1'', account_name = ''Wallet'',
        assets = Some \<lparr>crypto = Some [(''ethereum'', 2)], stock = None\<rparr>\<rparr>"
      "[''bitcoin'' \<mapsto> Some 100, ''ethereum'' \<mapsto> Some 20]" 100 Map.empty]
  by (simp add: crypto_of_def stock_of_def)

lemma crypto_items_total:
  "total_usd (crypto_items cp xs t) =
     total_usd t
       + sum_list (map (\<lambda>(crypto_id, amount).
                          case cp crypto_id of
                            Some (Some price) \<Rightarrow> if amount * price > 0 then amount * price else 0
                          | _ \<Rightarrow> 0) xs)"
  by (induction xs arbitrary: t) (auto split: option.splits simp: Let_def)

lemma stock_items_total:
  "total_usd (stock_items sp xs t) =
     total_usd t
       + sum_list (map (\<lambda>s. case sp (symbol s) of Some price \<Rightarrow> shares s * price | None \<Rightarrow> 0) xs)"
  by (induction xs arbitrary: t) (auto split: option.splits simp: Let_def)

lemma account_tally_total:
  "total_usd (account_tally cp sp a) =
     sum_list (map (\<lambda>(crypto_id, amount).
                      case cp crypto_id of
                        Some (Some price) \<Rightarrow> if amount * price > 0 then amount * price else 0
                      | _ \<Rightarrow> 0) (crypto_of a))
     + sum_list (map (\<lambda>s. case sp (symbol s) of Some price \<Rightarrow> shares s * price | None \<Rightarrow> 0)
                   (stock_of a))"
  by (simp add: account_tally_def stock_items_total crypto_items_total)

lemma floor_numeral_fraction: "\<lfloor>numeral a / numeral b :: rat\<rfloor> = numeral a div numeral b"
  using floor_divide_of_int_eq [of "numeral a" "numeral b", where ?'a = rat] by simp

lemmas format_2f_eval =
  format_2f_def round_half_even_def str_nat.simps digit_char_def Let_def floor_numeral_fraction

text \<open>
  The rounding used by the format picks a nearest integer, and the even one of two
  nearest.
\<close>

lemma round_half_even_nearest:
  "\<bar>of_int (round_half_even y) - y\<bar> \<le> 1 / 2
   \<and> (\<bar>of_int (round_half_even y) - y\<bar> = 1 / 2 \<longrightarrow> even (round_half_even y))"
proof -
  define f where "f = \<lfloor>y\<rfloor>"
  define d where "d = y - of_int f"
  have d: "0 \<le> d" "d < 1" unfolding d_def f_def by linarith+
  have y: "y = of_int f + d" unfolding d_def by simp
  have r: "round_half_even y =
          (if d < 1 / 2 then f else if 1 / 2 < d then f + 1 else if even f then f else f + 1)"
    unfolding round_half_even_def Let_def f_def d_def ..
  show ?thesis
  proof (cases "d < 1 / 2")
    case True
    then show ?thesis using d r y by simp
  next
    case False
    show ?thesis
    proof (cases "1 / 2 < d")
      case True
      then show ?thesis using d r y \<open>\<not> d < 1 / 2\<close> by (simp add: abs_if)
    next
      case False
      then have "d = 1 / 2" using \<open>\<not> d < 1 / 2\<close> by simp
      then show ?thesis using r y by (cases "even f") (simp_all add: abs_if)
    qed
  qed
qed

text \<open>
  C7: \<^verbatim>\<open>calculate_account_balances\<close> emits exactly one command per account, in the
  order of the accounts. The command is the text
  \<^verbatim>\<open>window.projectionlabPluginAPI.updateAccount('ID', { balance: B }, { key: 'KEY' })\<close>
  where \<^verbatim>\<open>B\<close> is the two-decimal format of the exact sum of the account's line items
  (crypto items with a price and a positive value, stock items with a price): nothing is
  rounded while the sum is built. Two accounts holding 10 shares of AAPL and 0.5 bitcoin,
  at prices 150 and 60000, give the balances \<^verbatim>\<open>1500.00\<close> and \<^verbatim>\<open>30000.00\<close> in that
  order. In the last list, two items of 1/256 each give \<^verbatim>\<open>0.01\<close> (each alone would
  format as \<^verbatim>\<open>0.00\<close>), 12345.75 keeps its decimals, and the ties -0.125 and 0.375
  give \<^verbatim>\<open>-0.12\<close> and \<^verbatim>\<open>0.38\<close>.
\<close>

theorem calculate_account_balances_commands:
  "calculate_account_balances accounts crypto_prices stock_prices pl_api_key
     = map (\<lambda>a. ''window.projectionlabPluginAPI.updateAccount('' @ [CHR 0x27] @ account_id a @ [CHR 0x27]
                  @ '', { balance: ''
                  @ format_2f
                      (sum_list (map (\<lambda>(crypto_id, amount).
                                        case crypto_prices crypto_id of
                                          Some (Some price) \<Rightarrow>
                                            if amount * price > 0 then amount * price else 0
                                        | _ \<Rightarrow> 0) (crypto_of a))
                       + sum_list (map (\<lambda>s. case stock_prices (symbol s) of
                                                Some price \<Rightarrow> shares s * price
                                              | None \<Rightarrow> 0) (stock_of a)))
                  @ '' }, { key: '' @ [CHR 0x27] @ pl_api_key @ [CHR 0x27] @ '' })'')
           accounts
   \<and> calculate_account_balances
       [\<lparr>account_id = id1, account_name = name1,
         assets = Some \<lparr>crypto = None, stock = Some [\<lparr>symbol = ''AAPL'', shares = 10\<rparr>]\<rparr>\<rparr>,
        \<lparr>account_id = id2, account_name = name2,
         assets = Some \<lparr>crypto = Some [(''bitcoin'', 1 / 2)], stock = None\<rparr>\<rparr>]
       [''bitcoin'' \<mapsto> Some 60000] [''AAPL'' \<mapsto> 150] pl_api_key
     = [''window.projectionlabPluginAPI.updateAccount('' @ [CHR 0x27] @ id1 @ [CHR 0x27]
          @ '', { balance: 1500.00 }, { key: '' @ [CHR 0x27] @ pl_api_key @ [CHR 0x27] @ '' })'',
        ''window.projectionlabPluginAPI.updateAccount('' @ [CHR 0x27] @ id2 @ [CHR 0x27]
          @ '', { balance: 30000.00 }, { key: '' @ [CHR 0x27] @ pl_api_key @ [CHR 0x27] @ '' })'']
   \<and> calculate_account_balances
       [\<lparr>account_id = ''a1'', account_name = ''Stocks'',
         assets = Some \<lparr>crypto = None, stock = Some [\<lparr>symbol = ''AAPL'', shares = 10\<rparr>]\<rparr>\<rparr>,
        \<lparr>account_id = ''a2'', account_name = ''Coins'',
         assets = Some \<lparr>crypto = Some [(''bitcoin'', 1 / 2)], stock = None\<rparr>\<rparr>,
        \<lparr>account_id = ''a3'', account_name = ''Dust'',
         assets = Some \<lparr>crypto = Some [(''dogecoin'', 1 / 4), (''shiba'', 1 / 4)], stock = Some []\<rparr>\<rparr>,
        \<lparr>account_id = ''a4'', account_name = ''Fund'',
         assets = Some \<lparr>crypto = Some [], stock = Some [\<lparr>symbol = ''VTI'', shares = 3\<rparr>]\<rparr>\<rparr>,
        \<lparr>account_id = ''a5'', account_name = ''Short'',
         assets = Some \<lparr>crypto = None, stock = Some [\<lparr>symbol = ''PENNY'', shares = - 1\<rparr>]\<rparr>\<rparr>,
        \<lparr>account_id = ''a6'', account_name = ''Mixed'',
         assets = Some \<lparr>crypto = Some [(''dogecoin'', 8)], stock = Some [\<lparr>symbol = ''PENNY'', shares = 2\<rparr>]\<rparr>\<rparr>]
       [''bitcoin'' \<mapsto> Some 60000, ''dogecoin'' \<mapsto> Some (1 / 64), ''shiba'' \<mapsto> Some (1 / 64)]
       [''AAPL'' \<mapsto> 150, ''VTI'' \<mapsto> 16461 / 4, ''PENNY'' \<mapsto> 1 / 8] ''K''
     = [''window.projectionlabPluginAPI.updateAccount('a1', { balance: 1500.00 }, { key: 'K' })'',
        ''window.projectionlabPluginAPI.updateAccount('a2', { balance: 30000.00 }, { key: 'K' })'',
        ''window.projectionlabPluginAPI.updateAccount('a3', { balance: 0.01 }, { key: 'K' })'',
        ''window.projectionlabPluginAPI.updateAccount('a4', { balance: 12345.75 }, { key: 'K' })'',
        ''window.projectionlabPluginAPI.updateAccount('a5', { balance: -0.12 }, { key: 'K' })'',
        ''window.projectionlabPluginAPI.updateAccount('a6', { balance: 0.38 }, { key: 'K' })'']"
proof (intro conjI)
  show "calculate_account_balances accounts crypto_prices stock_prices pl_api_key
     = map (\<lambda>a. ''window.projectionlabPluginAPI.updateAccount('' @ [CHR 0x27] @ account_id a @ [CHR 0x27]
                  @ '', { balance: ''
                  @ format_2f
                      (sum_list (map (\<lambda>(crypto_id, amount).
                                        case crypto_prices crypto_id of
                                          Some (Some price) \<Rightarrow>
                                            if amount * price > 0 then amount * price else 0
                                        | _ \<Rightarrow> 0) (crypto_of a))
                       + sum_list (map (\<lambda>s. case stock_prices (symbol s) of
                                                Some price \<Rightarrow> shares s * price
                                              | None \<Rightarrow> 0) (stock_of a)))
                  @ '' }, { key: '' @ [CHR 0x27] @ pl_api_key @ [CHR 0x27] @ '' })'')
           accounts"
    by (simp add: calculate_account_balances_def balances_loop_commands account_tally_total
        update_command_def apostrophe_def)
next
  have a: "format_2f (10 * 150) = ''1500.00''" "format_2f (1 / 2 * 60000) = ''30000.00''"
    by (simp_all add: format_2f_eval)
  show "calculate_account_balances
       [\<lparr>account_id = id1, account_name = name1,
         assets = Some \<lparr>crypto = None, stock = Some [\<lparr>symbol = ''AAPL'', shares = 10\<rparr>]\<rparr>\<rparr>,
        \<lparr>account_id = id2, account_name = name2,
         assets = Some \<lparr>crypto = Some [(''bitcoin'', 1 / 2)], stock = None\<rparr>\<rparr>]
       [''bitcoin'' \<mapsto> Some 60000] [''AAPL'' \<mapsto> 150] pl_api_key
     = [''window.projectionlabPluginAPI.updateAccount('' @ [CHR 0x27] @ id1 @ [CHR 0x27]
          @ '', { balance: 1500.00 }, { key: '' @ [CHR 0x27] @ pl_api_key @ [CHR 0x27] @ '' })'',
        ''window.projectionlabPluginAPI.updateAccount('' @ [CHR 0x27] @ id2 @ [CHR 0x27]
          @ '', { balance: 30000.00 }, { key: '' @ [CHR 0x27] @ pl_api_key @ [CHR 0x27] @ '' })'']"
    using a
    by (simp add: calculate_account_balances_def account_tally_def crypto_of_def stock_of_def
        update_command_def apostrophe_def)
next
  let ?cp = "[''bitcoin'' \<mapsto> Some 60000, ''dogecoin'' \<mapsto> Some (1 / 64), ''shiba'' \<mapsto> Some (1 / 64)]
               :: string \<rightharpoonup> rat option"
  let ?sp = "[''AAPL'' \<mapsto> 150, ''VTI'' \<mapsto> 16461 / 4, ''PENNY'' \<mapsto> 1 / 8] :: string \<rightharpoonup> rat"
  have t1: "total_usd (account_tally ?cp ?sp \<lparr>account_id = ''a1'', account_name = ''Stocks'',
         assets = Some \<lparr>crypto = None, stock = Some [\<lparr>symbol = ''AAPL'', shares = 10\<rparr>]\<rparr>\<rparr>) = 1500"
    by (simp add: account_tally_def crypto_of_def stock_of_def Let_def)
  have t2: "total_usd (account_tally ?cp ?sp \<lparr>account_id = ''a2'', account_name = ''Coins'',
         assets = Some \<lparr>crypto = Some [(''bitcoin'', 1 / 2)], stock = None\<rparr>\<rparr>) = 30000"
    by (simp add: account_tally_def crypto_of_def stock_of_def Let_def)
  have t3: "total_usd (account_tally ?cp ?sp \<lparr>account_id = ''a3'', account_name = ''Dust'',
         assets = Some \<lparr>crypto = Some [(''dogecoin'', 1 / 4), (''shiba'', 1 / 4)], stock = Some []\<rparr>\<rparr>) = 1 / 128"
    by (simp add: account_tally_def crypto_of_def stock_of_def Let_def)
  have t4: "total_usd (account_tally ?cp ?sp \<lparr>account_id = ''a4'', account_name = ''Fund'',
         assets = Some \<lparr>crypto = Some [], stock = Some [\<lparr>symbol = ''VTI'', shares = 3\<rparr>]\<rparr>\<rparr>) = 49383 / 4"
    by (simp add: account_tally_def crypto_of_def stock_of_def Let_def)
  have t5: "total_usd (account_tally ?cp ?sp \<lparr>account_id = ''a5'', account_name = ''Short'',
         assets = Some \<lparr>crypto = None, stock = Some [\<lparr>symbol = ''PENNY'', shares = - 1\<rparr>]\<rparr>\<rparr>) = - (1 / 8)"
    by (simp add: account_tally_def crypto_of_def stock_of_def Let_def)
  have t6: "total_usd (account_tally ?cp ?sp \<lparr>account_id = ''a6'', account_name = ''Mixed'',
         assets = Some \<lparr>crypto = Some [(''dogecoin'', 8)], stock = Some [\<lparr>symbol = ''PENNY'', shares = 2\<rparr>]\<rparr>\<rparr>) = 3 / 8"
    by (simp add: account_tally_def crypto_of_def stock_of_def Let_def)
  have f: "format_2f 1500 = ''1500.00''" "format_2f 30000 = ''30000.00''"
    "format_2f (1 / 128) = ''0.01''" "format_2f (49383 / 4) = ''12345.75''"
    "format_2f (- (1 / 8)) = ''-0.12''" "format_2f (3 / 8) = ''0.38''"
    by (simp_all add: format_2f_eval)
  show "calculate_account_balances
       [\<lparr>account_id = ''a1'', account_name = ''Stocks'',
         assets = Some \<lparr>crypto = None, stock = Some [\<lparr>symbol = ''AAPL'', shares = 10\<rparr>]\<rparr>\<rparr>,
        \<lparr>account_id = ''a2'', account_name = ''Coins'',
         assets = Some \<lparr>crypto = Some [(''bitcoin'', 1 / 2)], stock = None\<rparr>\<rparr>,
        \<lparr>account_id = ''a3'', account_name = ''Dust'',
         assets = Some \<lparr>crypto = Some [(''dogecoin'', 1 / 4), (''shiba'', 1 / 4)], stock = Some []\<rparr>\<rparr>,
        \<lparr>account_id = ''a4'', account_name = ''Fund'',
         assets = Some \<lparr>crypto = Some [], stock = Some [\<lparr>symbol = ''VTI'', shares = 3\<rparr>]\<rparr>\<rparr>,
        \<lparr>account_id = ''a5'', account_name = ''Short'',
         assets = Some \<lparr>crypto = None, stock = Some [\<lparr>symbol = ''PENNY'', shares = - 1\<rparr>]\<rparr>\<rparr>,
        \<lparr>account_id = ''a6'', account_name = ''Mixed'',
         assets = Some \<lparr>crypto = Some [(''dogecoin'', 8)], stock = Some [\<lparr>symbol = ''PENNY'', shares = 2\<rparr>]\<rparr>\<rparr>]
       ?cp ?sp ''K''
     = [''window.projectionlabPluginAPI.updateAccount('a1', { balance: 1500.00 }, { key: 'K' })'',
        ''window.projectionlabPluginAPI.updateAccount('a2', { balance: 30000.00 }, { key: 'K' })'',
        ''window.projectionlabPluginAPI.updateAccount('a3', { balance: 0.01 }, { key: 'K' })'',
        ''window.projectionlabPluginAPI.updateAccount('a4', { balance: 12345.75 }, { key: 'K' })'',
        ''window.projectionlabPluginAPI.updateAccount('a5', { balance: -0.12 }, { key: 'K' })'',
        ''window.projectionlabPluginAPI.updateAccount('a6', { balance: 0.38 }, { key: 'K' })'']"
    unfolding calculate_account_balances_def balances_loop.simps Let_def fst_conv t1 t2 t3 t4 t5 t6 f
    by (simp add: update_command_def apostrophe_def)
qed

text \<open>
  C10: every account of the input gets a command, also an account with no \<^verbatim>\<open>assets\<close>
  entry, with empty crypto and stock holdings, or with no holding that has a usable
  price; the command of such an account is the text
  \<^verbatim>\<open>window.projectionlabPluginAPI.updateAccount('ID', { balance: 0.00 }, { key: 'KEY' })\<close>
  with the account's id and the key.
\<close>

theorem unpriced_account_zero_balance:
  assumes "i < length accounts"
    and "assets (accounts ! i) = None
         \<or> (crypto_of (accounts ! i) = [] \<and> stock_of (accounts ! i) = [])
         \<or> ((\<forall>(crypto_id, amount) \<in> set (crypto_of (accounts ! i)).
                crypto_prices crypto_id = None \<or> crypto_prices crypto_id = Some None)
            \<and> (\<forall>s \<in> set (stock_of (accounts ! i)). stock_prices (symbol s) = None))"
  shows "length (calculate_account_balances accounts crypto_prices stock_prices pl_api_key) = length accounts
       \<and> calculate_account_balances accounts crypto_prices stock_prices pl_api_key ! i
           = ''window.projectionlabPluginAPI.updateAccount('' @ [CHR 0x27] @ account_id (accounts ! i)
               @ [CHR 0x27] @ '', { balance: 0.00 }, { key: '' @ [CHR 0x27] @ pl_api_key @ [CHR 0x27]
               @ '' })''"
proof -
  let ?a = "accounts ! i"
  have c: "\<forall>(crypto_id, amount) \<in> set (crypto_of ?a).
             crypto_prices crypto_id = None \<or> crypto_prices crypto_id = Some None"
    using assms(2) by (elim disjE conjE) (simp add: crypto_of_def, simp, blast)
  have s: "\<forall>s \<in> set (stock_of ?a). stock_prices (symbol s) = None"
    using assms(2) by (elim disjE conjE) (simp add: stock_of_def, simp, blast)
  have "total_usd (account_tally crypto_prices stock_prices ?a) = 0"
    by (simp add: account_tally_def stock_items_unpriced [OF s] crypto_items_unpriced [OF c])
  then show ?thesis
    using assms(1)
    by (simp add: calculate_account_balances_def balances_loop_commands format_2f_zero
        update_command_def apostrophe_def)
qed

theorem unpriced_account_zero_balance_witness:
  "calculate_account_balances
     [\<lparr>account_id = ''a1'', account_name = ''Savings'', assets = None\<rparr>,
      \<lparr>account_id = ''a2'', account_name = ''Wallet'',
       assets = Some \<lparr>crypto = Some [(''dogecoin'', 7)],
                      stock = Some [\<lparr>symbol = ''MSFT'', shares = 3\<rparr>]\<rparr>\<rparr>]
     [''dogecoin'' \<mapsto> None] Map.empty ''K'' ! 1
   = ''window.projectionlabPluginAPI.updateAccount('a2', { balance: 0.00 }, { key: 'K' })''
   \<and> calculate_account_balances
     [\<lparr>account_id = ''a1'', account_name = ''Savings'', assets = None\<rparr>,
      \<lparr>account_id = ''a2'', account_name = ''Wallet'',
       assets = Some \<lparr>crypto = Some [(''dogecoin'', 7)],
                      stock = Some [\<lparr>symbol = ''MSFT'', shares = 3\<rparr>]\<rparr>\<rparr>]
     [''dogecoin'' \<mapsto> None] Map.empty ''K'' ! 0
   = ''window.projectionlabPluginAPI.updateAccount('a1', { balance: 0.00 }, { key: 'K' })''"
  using unpriced_account_zero_balance [of 1
     "[\<lparr>account_id = ''a1'', account_name = ''Savings'', assets = None\<rparr>,
      \<lparr>account_id = ''a2'', account_name = ''Wallet'',
       assets = Some \<lparr>crypto = Some [(''dogecoin'', 7)],
                      stock = Some [\<lparr>symbol = ''MSFT'', shares = 3\<rparr>]\<rparr>\<rparr>]"
     "[''dogecoin'' \<mapsto> None]" Map.empty "''K''"]
    unpriced_account_zero_balance [of 0
     "[\<lparr>account_id = ''a1'', account_name = ''Savings'', assets = None\<rparr>,
      \<lparr>account_id = ''a2'', account_name = ''Wallet'',
       assets = Some \<lparr>crypto = Some [(''dogecoin'', 7)],
                      stock = Some [\<lparr>symbol = ''MSFT'', shares = 3\<rparr>]\<rparr>\<rparr>]"
     "[''dogecoin'' \<mapsto> None]" Map.empty "''K''"]
  by (simp add: crypto_of_def stock_of_def)

section \<open>Properties of the price fetch\<close>

lemma upt3: "[0..<3] = [0, 1, 2]"
  by (simp add: upt_rec)

lemma requests_append: "requests (xs @ ys) = requests xs @ requests ys"
  by (induction xs rule: requests.induct) simp_all

lemma extract_prices_None:
  "(extract_prices data ids acc = None) = (\<exists>i \<in> set ids. data i = Some (Some Usd_not_number))"
  by (induction ids arbitrary: acc) (auto split: option.splits usd_value.splits)

lemma extract_prices_Some:
  "extract_prices data ids acc = Some prices \<Longrightarrow>
     map_of prices i =
       (if i \<in> set ids
        then Some (case data i of Some (Some (Usd p)) \<Rightarrow> Some p | _ \<Rightarrow> None)
        else map_of acc i)"
proof (induction ids arbitrary: acc)
  case Nil
  then show ?case by simp
next
  case (Cons a ids)
  then show ?case
    by (cases "data a") (auto split: option.splits usd_value.splits if_splits simp: update_conv')
qed

lemma extract_prices_distinct:
  "extract_prices data ids acc = Some prices \<Longrightarrow> distinct (map fst acc) \<Longrightarrow> distinct (map fst prices)"
  by (induction ids arbitrary: acc) (auto split: option.splits usd_value.splits simp: distinct_update)

lemma try_request_Return:
  "(try_request ids d r = Return_prices prices) =
     (\<exists>data. r = Body data \<and> extract_prices data ids [] = Some prices)"
  by (auto simp: try_request_def split: response.splits option.splits)

lemma priced_body_iff:
  "priced_body ids r = (\<exists>prices. try_request ids d r = Return_prices prices)"
proof (cases r)
  case (Body data)
  have "(\<exists>prices. extract_prices data ids [] = Some prices) = (extract_prices data ids [] \<noteq> None)"
    by auto
  then show ?thesis
    using Body by (simp add: priced_body_def try_request_Return extract_prices_None list_all_iff)
qed (simp_all add: priced_body_def try_request_def split: option.splits)

text \<open>
  With a delay that is not negative no sleep raises: the loop returns, with the prices of
  the first attempt that meets a priced body, or with the empty dictionary.
\<close>

lemma attempts_loop_result:
  assumes "0 \<le> d"
  shows "\<exists>prices trace'. attempts_loop ids m d api as tr = Inr (prices, trace') \<and>
           (case find (\<lambda>k. priced_body ids (api k)) as of
              None \<Rightarrow> prices = []
            | Some k \<Rightarrow> try_request ids d (api k) = Return_prices prices)"
proof (induction as arbitrary: tr)
  case Nil
  then show ?case by simp
next
  case (Cons a as)
  show ?case
  proof (cases "try_request ids d (api a)")
    case (Return_prices p)
    then have "priced_body ids (api a)" by (auto simp: priced_body_iff [of ids "api a" d])
    then show ?thesis using Return_prices by simp
  next
    case (Continue_loop n)
    then have "\<not> priced_body ids (api a)" by (simp add: priced_body_iff [of ids "api a" d])
    then show ?thesis using Continue_loop Cons.IH by simp
  next
    case Caught
    then have "\<not> priced_body ids (api a)" by (simp add: priced_body_iff [of ids "api a" d])
    moreover have "\<not> d * 2 ^ a < 0" using assms by (simp add: not_less)
    ultimately show ?thesis using Caught Cons.IH by (simp add: Let_def)
  qed
qed

lemma get_crypto_prices_cases:
  assumes "0 \<le> retry_delay"
    and "ids = (case crypto_ids of None \<Rightarrow> DEFAULT_CRYPTO_IDS | Some l \<Rightarrow> l)"
  shows "\<exists>prices trace.
           get_crypto_prices crypto_ids max_retries retry_delay api = Inr (prices, trace)
           \<and> distinct (map fst prices)
           \<and> (case find (\<lambda>k. priced_body ids (api k)) [0..<nat max_retries] of
                None \<Rightarrow> prices = []
              | Some k \<Rightarrow>
                  (\<exists>data. api k = Body data
                     \<and> (\<forall>i. map_of prices i =
                          (if i \<in> set ids
                           then Some (case data i of Some (Some (Usd p)) \<Rightarrow> Some p | _ \<Rightarrow> None)
                           else None))))"
proof -
  obtain prices trace where
    r: "attempts_loop ids max_retries retry_delay api [0..<nat max_retries] [] = Inr (prices, trace)"
    and f: "(case find (\<lambda>k. priced_body ids (api k)) [0..<nat max_retries] of
               None \<Rightarrow> prices = []
             | Some k \<Rightarrow> try_request ids retry_delay (api k) = Return_prices prices)"
    using attempts_loop_result [OF assms(1)] by blast
  have g: "get_crypto_prices crypto_ids max_retries retry_delay api = Inr (prices, trace)"
    using r assms(2) by (simp add: get_crypto_prices_def)
  show ?thesis
  proof (cases "find (\<lambda>k. priced_body ids (api k)) [0..<nat max_retries]")
    case None
    then show ?thesis using g f by simp
  next
    case (Some k)
    then obtain data where d: "api k = Body data" "extract_prices data ids [] = Some prices"
      using f by (auto simp: try_request_Return)
    have "distinct (map fst prices)"
      using extract_prices_distinct [OF d(2)] by simp
    moreover have "\<forall>i. map_of prices i =
          (if i \<in> set ids
           then Some (case data i of Some (Some (Usd p)) \<Rightarrow> Some p | _ \<Rightarrow> None)
           else None)"
      using extract_prices_Some [OF d(2)] by simp
    ultimately show ?thesis using g Some d(1) by simp
  qed
qed

lemma attempts_loop_requests:
  "attempts_loop ids m d api as tr = Inr (prices, trace)
     \<Longrightarrow> \<exists>n \<le> length as. requests trace = requests tr @ take n as"
proof (induction as arbitrary: tr)
  case Nil
  then show ?case by simp
next
  case (Cons a as)
  show ?case
  proof (cases "try_request ids d (api a)")
    case (Return_prices p)
    then have "requests trace = requests tr @ take 1 (a # as)"
      using Cons.prems by (auto simp: requests_append)
    then show ?thesis by (intro exI [of _ 1]) simp
  next
    case (Continue_loop r)
    then have "attempts_loop ids m d api as (tr @ [Request a, Sleep r]) = Inr (prices, trace)"
      using Cons.prems by simp
    from Cons.IH [OF this] obtain n where "n \<le> length as"
      "requests trace = requests (tr @ [Request a, Sleep r]) @ take n as" by blast
    then have "Suc n \<le> length (a # as) \<and> requests trace = requests tr @ take (Suc n) (a # as)"
      by (simp add: requests_append)
    then show ?thesis by blast
  next
    case Caught
    then obtain tr' where t: "attempts_loop ids m d api as tr' = Inr (prices, trace)"
      and r: "requests tr' = requests tr @ [a]"
      using Cons.prems by (auto simp: Let_def requests_append split: if_splits)
    from Cons.IH [OF t] obtain n where "n \<le> length as"
      "requests trace = requests tr' @ take n as" by blast
    then have "Suc n \<le> length (a # as) \<and> requests trace = requests tr @ take (Suc n) (a # as)"
      using r by simp
    then show ?thesis by blast
  qed
qed

text \<open>
  C6: with a delay that is not negative, \<^verbatim>\<open>get_crypto_prices\<close> returns. When one of its
  attempts meets a successful response, the returned dictionary has an entry for every
  requested id and for no other: the price for an id priced in the body, \<^verbatim>\<open>None\<close> for
  an id the body does not price; a body pricing only some of the ids is enough. When no
  attempt meets a successful response, the result is the empty dictionary.
\<close>

theorem get_crypto_prices_result:
  assumes "0 \<le> retry_delay"
    and "ids = (case crypto_ids of None \<Rightarrow> DEFAULT_CRYPTO_IDS | Some l \<Rightarrow> l)"
  shows "\<exists>prices trace.
           get_crypto_prices crypto_ids max_retries retry_delay api = Inr (prices, trace)
           \<and> (case find (\<lambda>k. priced_body ids (api k)) [0..<nat max_retries] of
                None \<Rightarrow> prices = []
              | Some k \<Rightarrow>
                  (\<exists>data. api k = Body data
                     \<and> (\<forall>i. map_of prices i =
                          (if i \<in> set ids
                           then Some (case data i of Some (Some (Usd p)) \<Rightarrow> Some p | _ \<Rightarrow> None)
                           else None))))"
  using get_crypto_prices_cases [OF assms] by blast

theorem get_crypto_prices_result_witness:
  "(\<exists>prices trace.
      get_crypto_prices (Some [''bitcoin'', ''dogecoin'']) 3 5
        (\<lambda>k. if k = 0 then Request_exception else Body [''bitcoin'' \<mapsto> Some (Usd 60000)])
        = Inr (prices, trace)
      \<and> map_of prices ''bitcoin'' = Some (Some 60000)
      \<and> map_of prices ''dogecoin'' = Some None)
   \<and> (\<exists>trace. get_crypto_prices (Some [''bitcoin'', ''dogecoin'']) 3 5 (\<lambda>k. Http_error) = Inr ([], trace))"
proof
  show "\<exists>prices trace.
      get_crypto_prices (Some [''bitcoin'', ''dogecoin'']) 3 5
        (\<lambda>k. if k = 0 then Request_exception else Body [''bitcoin'' \<mapsto> Some (Usd 60000)])
        = Inr (prices, trace)
      \<and> map_of prices ''bitcoin'' = Some (Some 60000)
      \<and> map_of prices ''dogecoin'' = Some None"
    using get_crypto_prices_result [of 5 "[''bitcoin'', ''dogecoin'']" "Some [''bitcoin'', ''dogecoin'']" 3
        "\<lambda>k. if k = 0 then Request_exception else Body [''bitcoin'' \<mapsto> Some (Usd 60000)]"]
    by (simp add: upt3 priced_body_def) fastforce
next
  show "\<exists>trace. get_crypto_prices (Some [''bitcoin'', ''dogecoin'']) 3 5 (\<lambda>k. Http_error) = Inr ([], trace)"
    using get_crypto_prices_result [of 5 "[''bitcoin'', ''dogecoin'']" "Some [''bitcoin'', ''dogecoin'']" 3
        "\<lambda>k. Http_error"]
    by (simp add: upt3 priced_body_def)
qed

text \<open>
  C3, as the spec states it, fails: a 429 uses up its attempt of the loop. With three
  attempts and delay 5, a 429 (\<^verbatim>\<open>Retry-After: 2\<close>) followed by two network errors ends
  the call with the empty dictionary after three requests, the 429 among them; the
  answer to a fourth request, a priced body, is never asked for. The backoff after the
  first network error is \<open>5 * 2 ^ 1 = 10\<close> seconds, not \<open>5 * 2 ^ 0 = 5\<close>.
\<close>

theorem rate_limit_counterexample:
  "get_crypto_prices (Some [''bitcoin'']) 3 5
     (\<lambda>k. if k = 0 then Rate_limited (Header_int 2)
           else if k < 3 then Request_exception
           else Body [''bitcoin'' \<mapsto> Some (Usd 60000)])
   = Inr ([], [Request 0, Sleep 2, Request 1, Sleep 10, Request 2])"
  by (simp add: get_crypto_prices_def upt3 try_request_def retry_after_seconds_def)

text \<open>
  C3, amended: when an attempt receives a 429 whose \<^verbatim>\<open>Retry-After\<close> header is a
  non-negative integer (or is absent, then with \<^verbatim>\<open>retry_delay\<close>), the function sleeps
  for that many seconds instead of the exponential delay and goes on with the next
  attempt of the loop. The 429 counts as one of the \<^verbatim>\<open>max_retries\<close> attempts: a call
  makes at most \<^verbatim>\<open>max_retries\<close> requests, numbered from 0 without gaps, and the backoff
  after a failed attempt that is not the last is \<^verbatim>\<open>retry_delay * 2 ** attempt\<close> for
  that attempt's number.
\<close>

theorem rate_limit_takes_attempt:
  "(api attempt = Rate_limited h \<and> retry_after_seconds h retry_delay = Some retry_after
      \<and> 0 \<le> retry_after
    \<longrightarrow> attempts_loop crypto_ids max_retries retry_delay api (attempt # rest) trace
        = attempts_loop crypto_ids max_retries retry_delay api rest
            (trace @ [Request attempt, Sleep retry_after]))
   \<and> (api attempt \<in> {Request_exception, Http_error, Body_invalid}
      \<and> int attempt < max_retries - 1 \<and> 0 \<le> retry_delay
    \<longrightarrow> attempts_loop crypto_ids max_retries retry_delay api (attempt # rest) trace
        = attempts_loop crypto_ids max_retries retry_delay api rest
            (trace @ [Request attempt, Sleep (retry_delay * 2 ^ attempt)]))
   \<and> (get_crypto_prices ids max_retries retry_delay api = Inr (prices, events)
    \<longrightarrow> (\<exists>n \<le> nat max_retries. requests events = [0..<n]))"
proof (intro conjI impI)
  assume "api attempt = Rate_limited h \<and> retry_after_seconds h retry_delay = Some retry_after
      \<and> 0 \<le> retry_after"
  then show "attempts_loop crypto_ids max_retries retry_delay api (attempt # rest) trace
        = attempts_loop crypto_ids max_retries retry_delay api rest
            (trace @ [Request attempt, Sleep retry_after])"
    by (simp add: try_request_def)
next
  assume a: "api attempt \<in> {Request_exception, Http_error, Body_invalid}
      \<and> int attempt < max_retries - 1 \<and> 0 \<le> retry_delay"
  then have "try_request crypto_ids retry_delay (api attempt) = Caught"
    by (auto simp: try_request_def)
  moreover have "\<not> retry_delay * 2 ^ attempt < 0"
    using a by (simp add: not_less)
  ultimately show "attempts_loop crypto_ids max_retries retry_delay api (attempt # rest) trace
        = attempts_loop crypto_ids max_retries retry_delay api rest
            (trace @ [Request attempt, Sleep (retry_delay * 2 ^ attempt)])"
    using a by (simp add: Let_def)
next
  assume "get_crypto_prices ids max_retries retry_delay api = Inr (prices, events)"
  then obtain n where "n \<le> length [0..<nat max_retries]"
    "requests events = requests [] @ take n [0..<nat max_retries]"
    unfolding get_crypto_prices_def using attempts_loop_requests by blast
  then have "n \<le> nat max_retries \<and> requests events = [0..<n]"
    by (simp add: take_upt)
  then show "\<exists>n \<le> nat max_retries. requests events = [0..<n]" by blast
qed

theorem rate_limit_takes_attempt_witness:
  "attempts_loop [''bitcoin''] 3 5 (\<lambda>k. if k = 1 then Http_error else Rate_limited (Header_int 2)) [0, 1, 2] []
     = attempts_loop [''bitcoin''] 3 5 (\<lambda>k. if k = 1 then Http_error else Rate_limited (Header_int 2)) [1, 2]
         [Request 0, Sleep 2]
   \<and> attempts_loop [''bitcoin''] 3 5 (\<lambda>k. if k = 1 then Http_error else Rate_limited (Header_int 2)) [1, 2]
         [Request 0, Sleep 2]
     = attempts_loop [''bitcoin''] 3 5 (\<lambda>k. if k = 1 then Http_error else Rate_limited (Header_int 2)) [2]
         [Request 0, Sleep 2, Request 1, Sleep 10]
   \<and> (\<exists>n \<le> 3. requests [Request 0, Sleep 2, Request 1, Sleep 10, Request 2, Sleep 2] = [0..<n])"
  using rate_limit_takes_attempt [of "\<lambda>k. if k = 1 then Http_error else Rate_limited (Header_int 2)" 0
      "Header_int 2" 5 2 "[''bitcoin'']" 3 "[1, 2]" "[]" "Some [''bitcoin'']" "[]"
      "[Request 0, Sleep 2, Request 1, Sleep 10, Request 2, Sleep 2]"]
    rate_limit_takes_attempt [of "\<lambda>k. if k = 1 then Http_error else Rate_limited (Header_int 2)" 1
      "Header_int 2" 5 2 "[''bitcoin'']" 3 "[2]" "[Request 0, Sleep 2]" "Some [''bitcoin'']" "[]"
      "[Request 0, Sleep 2, Request 1, Sleep 10, Request 2, Sleep 2]"]
  by (simp add: retry_after_seconds_def get_crypto_prices_def upt3 try_request_def)

section \<open>Properties of the price cache\<close>

lemma get_crypto_prices_default:
  "\<exists>prices trace. get_crypto_prices (Some ids) 3 5 api = Inr (prices, trace)
      \<and> (prices \<noteq> [] \<longrightarrow> (\<forall>i. i \<notin> set ids \<longrightarrow> map_of prices i = None)
                         \<and> (\<forall>i. i \<in> set ids \<longrightarrow> map_of prices i \<noteq> None))"
proof -
  obtain prices trace where g: "get_crypto_prices (Some ids) 3 5 api = Inr (prices, trace)"
    and c: "(case find (\<lambda>k. priced_body ids (api k)) [0..<nat 3] of
                None \<Rightarrow> prices = []
              | Some k \<Rightarrow>
                  (\<exists>data. api k = Body data
                     \<and> (\<forall>i. map_of prices i =
                          (if i \<in> set ids
                           then Some (case data i of Some (Some (Usd p)) \<Rightarrow> Some p | _ \<Rightarrow> None)
                           else None))))"
    using get_crypto_prices_cases [of 5 ids "Some ids" 3 api] by auto
  have "prices \<noteq> [] \<longrightarrow> (\<forall>i. i \<notin> set ids \<longrightarrow> map_of prices i = None)
                         \<and> (\<forall>i. i \<in> set ids \<longrightarrow> map_of prices i \<noteq> None)"
    using c by (cases "find (\<lambda>k. priced_body ids (api k)) [0..<nat 3]") auto
  then show ?thesis using g by blast
qed

lemma read_cache_Hit:
  "read_cache file now ids ttl = Hit p \<Longrightarrow>
     \<exists>r. file = Stored r \<and> p = (case cache_prices r of None \<Rightarrow> [] | Some q \<Rightarrow> q)
        \<and> now - (case cache_timestamp r of None \<Rightarrow> 0 | Some t \<Rightarrow> t) < of_int ttl
        \<and> (\<forall>i \<in> set ids. map_of p i \<noteq> None)"
  by (auto simp: read_cache_def Let_def filter_empty_conv split: cache_file.splits if_splits)

text \<open>
  As long as no requested id is stored with \<^verbatim>\<open>None\<close>, a record written at \<open>T\<close> is a
  hit at \<open>T + delta\<close> exactly when \<open>delta\<close> is below the time to live and every
  requested id is a key of the record.
\<close>

lemma read_cache_hit_iff:
  assumes "\<forall>(i, price) \<in> set P. i \<in> set ids \<longrightarrow> price \<noteq> None"
  shows "(read_cache (Stored \<lparr>cache_timestamp = Some T, cache_prices = Some P\<rparr>) (T + delta) ids ttl = Hit P)
          = (delta < of_int ttl \<and> (\<forall>i \<in> set ids. map_of P i \<noteq> None))"
proof -
  have "\<not> list_ex (\<lambda>(crypto_id, price). crypto_id \<in> set ids \<and> price = None) P"
    using assms by (auto simp: list_ex_iff)
  then show ?thesis
    by (auto simp: read_cache_def Let_def filter_empty_conv)
qed

text \<open>
  C4 at a record the code itself writes: \<^verbatim>\<open>bitcoin\<close> stored with \<^verbatim>\<open>None\<close> at time 1000,
  requested at time 1001 with a time to live of 300. The record is young enough and has
  the requested id, yet the lookup ends in the \<^verbatim>\<open>except\<close> clause: the prices are
  fetched anew and the record is overwritten.
\<close>

theorem cached_none_price_refetched:
  "read_cache (Stored \<lparr>cache_timestamp = Some 1000, cache_prices = Some [(''bitcoin'', None)]\<rparr>)
      (1000 + 1) [''bitcoin''] 300 = Read_error
   \<and> (1::rat) < of_int 300
   \<and> map_of [(''bitcoin'', None :: rat option)] ''bitcoin'' \<noteq> None
   \<and> get_cached_crypto_prices [''bitcoin''] 300
       \<lparr>w_file = Stored \<lparr>cache_timestamp = Some 1000, cache_prices = Some [(''bitcoin'', None)]\<rparr>,
        w_time_read = 1000 + 1, w_time_write = 1000 + 2,
        w_api = (\<lambda>k. Body [''bitcoin'' \<mapsto> Some (Usd 60000)]), w_write_fault = None\<rparr>
     = Inr ([(''bitcoin'', Some 60000)],
            Stored \<lparr>cache_timestamp = Some (1000 + 2), cache_prices = Some [(''bitcoin'', Some 60000)]\<rparr>)"
  by (simp add: read_cache_def get_cached_crypto_prices_def get_crypto_prices_def upt3 try_request_def)

text \<open>
  C5: a write of the cache replaces the record. After a miss, a fetch that returns a
  mapping that is not empty and a write that succeeds, the file holds exactly the time
  of the write and the fetched mapping, whatever it held before; the mapping has no
  entry for an id that was not requested, so a later lookup that asks for such an id is
  never a hit.
\<close>

theorem cache_write_replaces:
  assumes "\<forall>p. read_cache (w_file w) (w_time_read w) crypto_ids cache_duration \<noteq> Hit p"
    and "get_crypto_prices (Some crypto_ids) 3 5 (w_api w) = Inr (prices, trace)"
    and "prices \<noteq> []"
    and "w_write_fault w = None"
  shows "get_cached_crypto_prices crypto_ids cache_duration w
           = Inr (prices, Stored \<lparr>cache_timestamp = Some (w_time_write w), cache_prices = Some prices\<rparr>)
       \<and> (\<forall>i. i \<notin> set crypto_ids \<longrightarrow> map_of prices i = None)
       \<and> (\<forall>ids' now ttl p. (\<exists>i \<in> set ids'. i \<notin> set crypto_ids) \<longrightarrow>
             read_cache (Stored \<lparr>cache_timestamp = Some (w_time_write w), cache_prices = Some prices\<rparr>)
               now ids' ttl \<noteq> Hit p)"
proof -
  have 1: "get_cached_crypto_prices crypto_ids cache_duration w
           = Inr (prices, Stored \<lparr>cache_timestamp = Some (w_time_write w), cache_prices = Some prices\<rparr>)"
    using assms
    by (cases "read_cache (w_file w) (w_time_read w) crypto_ids cache_duration")
       (simp_all add: get_cached_crypto_prices_def)
  have 2: "\<forall>i. i \<notin> set crypto_ids \<longrightarrow> map_of prices i = None"
    using get_crypto_prices_default [of crypto_ids "w_api w"] assms(2,3) by auto
  have 3: "read_cache (Stored \<lparr>cache_timestamp = Some (w_time_write w), cache_prices = Some prices\<rparr>)
               now ids' ttl \<noteq> Hit p" if "\<exists>i \<in> set ids'. i \<notin> set crypto_ids" for ids' now ttl p
  proof
    assume "read_cache (Stored \<lparr>cache_timestamp = Some (w_time_write w), cache_prices = Some prices\<rparr>)
               now ids' ttl = Hit p"
    from read_cache_Hit [OF this] have "\<forall>i \<in> set ids'. map_of prices i \<noteq> None" by auto
    then show False using that 2 by blast
  qed
  show ?thesis using 1 2 3 by blast
qed

theorem cache_write_replaces_witness:
  "get_cached_crypto_prices [''bitcoin''] 300
     \<lparr>w_file = Stored \<lparr>cache_timestamp = Some 1000,
                         cache_prices = Some [(''bitcoin'', Some 50000), (''ethereum'', Some 3000)]\<rparr>,
      w_time_read = 2000, w_time_write = 2001,
      w_api = (\<lambda>k. Body [''bitcoin'' \<mapsto> Some (Usd 60000)]), w_write_fault = None\<rparr>
   = Inr ([(''bitcoin'', Some 60000)],
          Stored \<lparr>cache_timestamp = Some 2001, cache_prices = Some [(''bitcoin'', Some 60000)]\<rparr>)
   \<and> map_of [(''bitcoin'', Some (60000::rat))] ''ethereum'' = None
   \<and> read_cache (Stored \<lparr>cache_timestamp = Some 2001, cache_prices = Some [(''bitcoin'', Some 60000)]\<rparr>)
        2002 [''bitcoin'', ''ethereum''] 300
      \<noteq> Hit [(''bitcoin'', Some 50000), (''ethereum'', Some 3000)]"
  using cache_write_replaces [of
      "\<lparr>w_file = Stored \<lparr>cache_timestamp = Some 1000,
                         cache_prices = Some [(''bitcoin'', Some 50000), (''ethereum'', Some 3000)]\<rparr>,
        w_time_read = 2000, w_time_write = 2001,
        w_api = (\<lambda>k. Body [''bitcoin'' \<mapsto> Some (Usd 60000)]), w_write_fault = None\<rparr>"
      "[''bitcoin'']" 300 "[(''bitcoin'', Some 60000)]" "[Request 0]"]
  by (simp add: read_cache_def get_crypto_prices_def upt3 try_request_def)

text \<open>
  C9: when the lookup is a miss and the fetch returns the empty mapping, nothing is
  written and the cache file is as it was; whenever the file is changed, the fetch
  returned a mapping that is not empty, which is also the result of the call.
\<close>

theorem empty_fetch_keeps_cache:
  "((\<forall>p. read_cache (w_file w) (w_time_read w) crypto_ids cache_duration \<noteq> Hit p)
      \<and> get_crypto_prices (Some crypto_ids) 3 5 (w_api w) = Inr ([], trace)
    \<longrightarrow> get_cached_crypto_prices crypto_ids cache_duration w = Inr ([], w_file w))
   \<and> (get_cached_crypto_prices crypto_ids cache_duration w = Inr (result, file') \<and> file' \<noteq> w_file w
    \<longrightarrow> result \<noteq> [] \<and> (\<exists>events. get_crypto_prices (Some crypto_ids) 3 5 (w_api w) = Inr (result, events)))"
proof (intro conjI impI)
  assume a: "(\<forall>p. read_cache (w_file w) (w_time_read w) crypto_ids cache_duration \<noteq> Hit p)
      \<and> get_crypto_prices (Some crypto_ids) 3 5 (w_api w) = Inr ([], trace)"
  then show "get_cached_crypto_prices crypto_ids cache_duration w = Inr ([], w_file w)"
    by (cases "read_cache (w_file w) (w_time_read w) crypto_ids cache_duration")
       (simp_all add: get_cached_crypto_prices_def)
next
  assume a: "get_cached_crypto_prices crypto_ids cache_duration w = Inr (result, file') \<and> file' \<noteq> w_file w"
  obtain prices events where g: "get_crypto_prices (Some crypto_ids) 3 5 (w_api w) = Inr (prices, events)"
    using get_crypto_prices_default [of crypto_ids "w_api w"] by blast
  show "result \<noteq> []"
    using a g
    by (cases "read_cache (w_file w) (w_time_read w) crypto_ids cache_duration")
       (auto simp: get_cached_crypto_prices_def split: if_splits option.splits)
  show "\<exists>events. get_crypto_prices (Some crypto_ids) 3 5 (w_api w) = Inr (result, events)"
    using a g
    by (cases "read_cache (w_file w) (w_time_read w) crypto_ids cache_duration")
       (auto simp: get_cached_crypto_prices_def split: if_splits option.splits)
qed

theorem empty_fetch_keeps_cache_witness:
  "get_cached_crypto_prices [''bitcoin''] 300
     \<lparr>w_file = Stored \<lparr>cache_timestamp = Some 1000, cache_prices = Some [(''bitcoin'', Some 50000)]\<rparr>,
      w_time_read = 2000, w_time_write = 2001,
      w_api = (\<lambda>k. Http_error), w_write_fault = None\<rparr>
   = Inr ([], Stored \<lparr>cache_timestamp = Some 1000, cache_prices = Some [(''bitcoin'', Some 50000)]\<rparr>)"
  using empty_fetch_keeps_cache [of
      "\<lparr>w_file = Stored \<lparr>cache_timestamp = Some 1000, cache_prices = Some [(''bitcoin'', Some 50000)]\<rparr>,
        w_time_read = 2000, w_time_write = 2001,
        w_api = (\<lambda>k. Http_error), w_write_fault = None\<rparr>"
      "[''bitcoin'']" 300 "[Request 0, Sleep 5, Request 1, Sleep 10, Request 2]"]
  by (simp add: read_cache_def get_crypto_prices_def upt3 try_request_def)

section \<open>Properties of the one-time code submission\<close>

lemma map_upt_Suc_Suc: "map f [0..<Suc (Suc n)] = f 0 # map (\<lambda>j. f (Suc j)) [0..<Suc n]"
proof -
  have "[0..<Suc (Suc n)] = 0 # map Suc [0..<Suc n]"
    by (simp only: map_Suc_upt upt_conv_Cons [of 0 "Suc (Suc n)"] zero_less_Suc)
  then show ?thesis by (simp only: list.map map_map o_def)
qed

text \<open>
  C2, as the spec states it, fails: with every submission rejected, a fresh code that
  differs from the rejected one leads to another call, and again after that. Here the
  codes \<^verbatim>\<open>111111\<close>, \<^verbatim>\<open>222222\<close> and \<^verbatim>\<open>333333\<close> are entered, two retries beyond the
  first attempt, before the function returns \<^verbatim>\<open>False\<close>.
\<close>

theorem mfa_retry_counterexample:
  "handle_mfa_code
     (\<lambda>d. if d = 0 then Rejected (Some ''222222'') else Rejected (Some ''333333''))
     0 ''111111'' []
   = Some (False, [''111111'', ''222222'', ''333333''])"
  by (simp add: handle_mfa_code.simps)

text \<open>
  C2, amended: when every submitted code is rejected, \<^verbatim>\<open>handle_mfa_code\<close> generates a
  fresh code after each rejection and calls itself with it for as long as the fresh code
  is not empty and differs from the code just rejected; at the first rejection after
  which the fresh code is the same, is empty or could not be generated, it returns
  \<^verbatim>\<open>False\<close>. With \<open>n\<close> such changes of the code it returns after \<open>n\<close> retries; no
  counter limits \<open>n\<close> to one.
\<close>

theorem mfa_retries_while_code_changes:
  assumes "\<forall>j<n. browser (depth + j) = Rejected (Some (code (Suc j)))
                  \<and> code (Suc j) \<noteq> [] \<and> code (Suc j) \<noteq> code j"
    and "browser (depth + n) = Rejected fresh"
    and "fresh = None \<or> fresh = Some [] \<or> fresh = Some (code n)"
  shows "handle_mfa_code browser depth (code 0) entered
           = Some (False, entered @ map code [0..<Suc n])"
  using assms
proof (induction n arbitrary: depth code entered)
  case 0
  then show ?case
    by (subst handle_mfa_code.simps) auto
next
  case (Suc n)
  have first: "browser depth = Rejected (Some (code 1))" "code 1 \<noteq> []" "code 1 \<noteq> code 0"
    using Suc.prems(1) by (auto dest: spec [of _ 0])
  have step: "handle_mfa_code browser depth (code 0) entered
                = handle_mfa_code browser (Suc depth) (code 1) (entered @ [code 0])"
    using first by (subst handle_mfa_code.simps) simp
  have rest: "\<forall>j<n. browser (Suc depth + j) = Rejected (Some (code (Suc (Suc j))))
                  \<and> code (Suc (Suc j)) \<noteq> [] \<and> code (Suc (Suc j)) \<noteq> code (Suc j)"
    using Suc.prems(1) by (auto dest: spec [of _ "Suc j" for j])
  have last: "browser (Suc depth + n) = Rejected fresh"
    using Suc.prems(2) by simp
  have "handle_mfa_code browser (Suc depth) (code (Suc 0)) (entered @ [code 0])
          = Some (False, (entered @ [code 0]) @ map (\<lambda>j. code (Suc j)) [0..<Suc n])"
    using Suc.IH [of "Suc depth" "\<lambda>j. code (Suc j)" "entered @ [code 0]"] rest last Suc.prems(3)
    by simp
  then show ?case
    using step by (simp only: map_upt_Suc_Suc [of code n] One_nat_def append_assoc append_Cons append_Nil)
qed

theorem mfa_retries_while_code_changes_witness:
  "handle_mfa_code
     (\<lambda>d. if d = 0 then Rejected (Some ''222222'') else Rejected (Some ''333333''))
     0 ''111111'' []
   = Some (False, [] @ map (\<lambda>j. if j = 0 then ''111111'' else if j = 1 then ''222222'' else ''333333'') [0..<Suc 2])"
  using mfa_retries_while_code_changes [of 2
      "\<lambda>d. if d = 0 then Rejected (Some ''222222'') else Rejected (Some ''333333'')" 0
      "\<lambda>j. if j = 0 then ''111111'' else if j = 1 then ''222222'' else ''333333''"
      "Some ''333333''" "[]"]
  by (simp add: less_Suc_eq)

section \<open>Properties of the command log\<close>

text \<open>For an ordinary account id and key the logged line is the command with the key replaced.\<close>

lemma redaction_ordinary_command:
  "redact_command (update_command ''a1'' ''0.00'' ''SECRET'')
     = Inr (update_command ''a1'' ''0.00'' ''***REDACTED***'')"
  by (simp add: redact_command_def update_command_def apostrophe_def py_replace_def)

text \<open>
  C8 at two commands built by \<^verbatim>\<open>calculate_account_balances\<close>. For an account id that
  ends in \<^verbatim>\<open>key: \<close> the text taken for the credential is a piece of the command before
  the credential, and the logged line still has the whole key \<^verbatim>\<open>SECRET\<close>. For a key
  with an apostrophe, \<^verbatim>\<open>s'ECRET\<close>, only the part before the apostrophe is replaced and
  the logged line still has \<^verbatim>\<open>'ECRET\<close>.
\<close>

theorem redaction_leaves_key:
  "execute_commands (\<lambda>c. True)
     (calculate_account_balances
        [\<lparr>account_id = ''my key: '', account_name = ''Wallet'', assets = None\<rparr>]
        Map.empty Map.empty ''SECRET'') []
     = (True, [Executing_command
                 (''window.projectionlabPluginAPI.updateAccount('' @ apostrophe @ ''my key: '' @ apostrophe
                    @ ''***REDACTED***key: '' @ apostrophe @ ''SECRET'' @ apostrophe @ '' })''),
               Executed])
   \<and> (case redact_command (update_command ''a1'' ''0.00'' (''s'' @ apostrophe @ ''ECRET'')) of
        Inr redacted_command \<Rightarrow> sublist (apostrophe @ ''ECRET'') redacted_command
      | Inl e \<Rightarrow> False)"
  by (simp add: calculate_account_balances_def account_tally_def crypto_of_def stock_of_def
      format_2f_zero redact_command_def update_command_def apostrophe_def py_replace_def
      sublist_Cons_right)

end
